theory Spec2Isabelle
  imports Main "HOL-Library.Word"
begin

section \<open>LLVMUserExpression: running a compiled expression against a stopped target\<close>

text \<open>
  A shallow embedding of \<^verbatim>\<open>lldb/source/Expression/LLVMUserExpression.cpp\<close>:
  \<^verbatim>\<open>Execute\<close>, \<^verbatim>\<open>FinalizeJITExecution\<close> and
  \<^verbatim>\<open>PrepareToExecuteJITExpression\<close>.

  The three methods mutate the expression object, write to the caller's error stream and
  call into collaborators that live in other files (the execution unit's allocator, the
  materializer, the interpreter, the thread plan, the process). The model threads one
  record through every statement: the object's members, the error stream, the result
  variable and the list of collaborator calls made so far, in order. What a collaborator
  answers is a parameter; it may depend on every call made before it.

  Left out: the diagnostic log (\<^verbatim>\<open>log->Printf\<close>), which goes to a channel of its own and
  decides nothing; the destructor and \<^verbatim>\<open>GetJITModule\<close>, which none of the three methods
  calls.
\<close>

subsection \<open>Data\<close>

type_synonym addr_t = "64 word"
type_synonym size_t = "64 word"

text \<open>
  The macro \<^verbatim>\<open>LLDB_INVALID_ADDRESS\<close> is defined outside this file, as \<^verbatim>\<open>UINT64_MAX\<close>.
  The general theorems below only compare addresses with it; its value matters to the
  concrete runs alone.
\<close>

definition LLDB_INVALID_ADDRESS :: addr_t where
  "LLDB_INVALID_ADDRESS = - 1"

text \<open>
  Modelled from the spec: the enumeration \<^verbatim>\<open>lldb::ExpressionResults\<close> is declared
  outside this file; these are the outcomes the spec lists, under the names the source uses.
\<close>

datatype ExpressionResults =
    eExpressionCompleted
  | eExpressionSetupError
  | eExpressionDiscarded
  | eExpressionInterrupted
  | eExpressionHitBreakpoint
  | eExpressionResultUnavailable
  | eExpressionStoppedForDebug

datatype AllocationPolicy = eAllocationPolicyHostOnly | eAllocationPolicyMirror

datatype Permissions = ePermissionsReadable | ePermissionsWritable

text \<open>
  An \<^verbatim>\<open>Error\<close> object after a call: success, or a failure with the text that
  \<^verbatim>\<open>AsCString\<close> gives for it.
\<close>

datatype Error = NoError | Failed string

fun Success :: "Error \<Rightarrow> bool" where
  "Success NoError = True"
| "Success (Failed text) = False"

fun AsCString :: "Error \<Rightarrow> string" where
  "AsCString NoError = []"
| "AsCString (Failed text) = text"

type_synonym Module = nat
type_synonym Function = nat
type_synonym StackFrame = nat
type_synonym Process = nat
type_synonym Dematerializer = nat
type_synonym ExpressionVariable = nat

record IRExecutionUnit =
  GetModule :: "Module option"
  GetFunction :: "Function option"

text \<open>
  The two getters of the materializer are declared outside this file, both returning
  \<^verbatim>\<open>uint32_t\<close>.
\<close>

record Materializer =
  GetStructByteSize :: "32 word"
  GetStructAlignment :: "32 word"

record StopInfo =
  GetDescription :: "string option"

record ExecutionContext =
  HasThreadScope :: bool
  GetProcessPtr :: "Process option"

record EvaluateExpressionOptions =
  DoesUnwindOnError :: bool
  DoesIgnoreBreakpoints :: bool

text \<open>The members of the expression object that the three methods read or write.\<close>

record LLVMUserExpression =
  m_jit_start_addr :: addr_t
  m_can_interpret :: bool
  m_materialized_address :: addr_t
  m_stack_frame_bottom :: addr_t
  m_stack_frame_top :: addr_t
  m_execution_unit_sp :: "IRExecutionUnit option"
  m_materializer_ap :: "Materializer option"
  m_dematerializer_sp :: "Dematerializer option"

text \<open>
  The constructor's initial values for these members. \<^verbatim>\<open>m_jit_start_addr\<close> is inherited
  from \<^verbatim>\<open>Expression\<close>, which starts it at \<^verbatim>\<open>LLDB_INVALID_ADDRESS\<close>.
\<close>

definition constructed :: LLVMUserExpression where
  "constructed =
     \<lparr>m_jit_start_addr = LLDB_INVALID_ADDRESS,
      m_can_interpret = False,
      m_materialized_address = LLDB_INVALID_ADDRESS,
      m_stack_frame_bottom = LLDB_INVALID_ADDRESS,
      m_stack_frame_top = LLDB_INVALID_ADDRESS,
      m_execution_unit_sp = None,
      m_materializer_ap = None,
      m_dematerializer_sp = None\<rparr>"

subsection \<open>Collaborators\<close>

text \<open>
  Every call that leaves this file and can change something outside it, with the arguments
  it was given and, last, what it answered.
\<close>

datatype call =
    Call_LockAndCheckContext bool
  | Call_Malloc size_t "8 word" "Permissions set" AllocationPolicy addr_t Error
  | Call_Materialize "StackFrame option" addr_t "Dematerializer option" Error
  | Call_AddInitialArguments bool
  | Call_Interpret "addr_t list" addr_t addr_t Error
  | Call_ThreadPlanCallUserExpression addr_t "addr_t list"
  | Call_ValidatePlan bool
  | Call_SetRunningUserExpression bool
  | Call_RunThreadPlan ExpressionResults
  | Call_TransferExpressionOwnership
  | Call_Dematerialize Dematerializer addr_t addr_t Error
  | Call_GetResultAfterDematerialization "ExpressionVariable option"
  | Call_TransferAddress

text \<open>
  What the collaborators answer. Each answer is a function of the calls made so far, so two
  calls of the same allocator need not return the same address. Functions that receive the
  error stream also return the text they wrote to it. \<^verbatim>\<open>Malloc\<close> is declared outside this
  file with the parameters \<^verbatim>\<open>size_t size, uint8_t alignment, uint32_t permissions\<close>, the
  policy and the error: an argument of another width is converted at the call.
\<close>

record Collaborators =
  LockAndCheckContext :: "call list \<Rightarrow> bool \<times> StackFrame option"
  Malloc :: "call list \<Rightarrow> size_t \<Rightarrow> 8 word \<Rightarrow> Permissions set \<Rightarrow> AllocationPolicy
               \<Rightarrow> addr_t \<times> Error"
  Materialize :: "call list \<Rightarrow> StackFrame option \<Rightarrow> addr_t \<Rightarrow> Dematerializer option \<times> Error"
  AddInitialArguments :: "call list \<Rightarrow> bool \<times> addr_t list \<times> string"
  Interpret :: "call list \<Rightarrow> addr_t list \<Rightarrow> addr_t \<Rightarrow> addr_t \<Rightarrow> Error"
  ValidatePlan :: "call list \<Rightarrow> bool \<times> string"
  GetFunctionStackPointer :: "call list \<Rightarrow> addr_t"
  GetPageSize :: addr_t
  RunThreadPlan :: "call list \<Rightarrow> ExpressionResults \<times> string"
  GetRealStopInfo :: "call list \<Rightarrow> StopInfo option"
  ExecutionResultAsCString :: "ExpressionResults \<Rightarrow> string"
  Dematerialize :: "call list \<Rightarrow> Dematerializer \<Rightarrow> addr_t \<Rightarrow> addr_t \<Rightarrow> Error"
  GetResultAfterDematerialization :: "call list \<Rightarrow> ExpressionVariable option"

subsection \<open>The threaded state\<close>

record Machine =
  this :: LLVMUserExpression
  error_stream :: string
  result :: "ExpressionVariable option"
  calls :: "call list"

definition Printf :: "string \<Rightarrow> Machine \<Rightarrow> Machine" where
  "Printf text M = M\<lparr>error_stream := error_stream M @ text\<rparr>"

definition PutCString :: "string \<Rightarrow> Machine \<Rightarrow> Machine" where
  "PutCString text M = M\<lparr>error_stream := error_stream M @ text\<rparr>"

definition record_call :: "call \<Rightarrow> Machine \<Rightarrow> Machine" where
  "record_call c M = M\<lparr>calls := calls M @ [c]\<rparr>"

text \<open>
  The source dereferences \<^verbatim>\<open>m_execution_unit_sp\<close>, \<^verbatim>\<open>m_materializer_ap\<close> and
  \<^verbatim>\<open>exe_ctx.GetProcessRef()\<close> without a null test. A run that does so on a null pointer has
  no defined result; the model stops it with a fault, which keeps the calls made before it.
\<close>

datatype Fault = NullDereference "call list"

subsection \<open>The longer texts that \<^verbatim>\<open>Execute\<close> writes\<close>

definition process_returned_text :: string where
  "process_returned_text =
     ''\<newline>The process has been returned to the state before expression evaluation.''"

definition process_left_text :: string where
  "process_left_text =
     ''\<newline>The process has been left at the point where it was interrupted, use ''
     @ [CHR 0x22] @ ''thread return -x'' @ [CHR 0x22]
     @ '' to return to the state before expression evaluation.''"

definition stopped_for_debug_text :: string where
  "stopped_for_debug_text =
     ''Execution was halted at the first instruction of the expression function because ''
     @ [CHR 0x22] @ ''debug'' @ [CHR 0x22] @ '' was requested.\<newline>Use ''
     @ [CHR 0x22] @ ''thread return -x'' @ [CHR 0x22]
     @ '' to return to the state before expression evaluation.''"

subsection \<open>PrepareToExecuteJITExpression\<close>

definition stack_frame_size :: size_t where
  "stack_frame_size = 512 * 1024"

text \<open>
  Returns the method's boolean, the by-reference \<^verbatim>\<open>struct_address\<close> and the state.
\<close>

definition PrepareToExecuteJITExpression ::
  "Collaborators \<Rightarrow> addr_t \<Rightarrow> Machine \<Rightarrow> Fault + (bool \<times> addr_t \<times> Machine)" where
  "PrepareToExecuteJITExpression co struct_address M0 =
    (case LockAndCheckContext co (calls M0) of (locked, frame) \<Rightarrow>
     let M = record_call (Call_LockAndCheckContext locked) M0 in
     if \<not> locked then
       Inr (False, struct_address,
            Printf ''The context has changed before we could JIT the expression!\<newline>'' M)
     else if m_jit_start_addr (this M) \<noteq> LLDB_INVALID_ADDRESS \<or> m_can_interpret (this M) then
       (case m_execution_unit_sp (this M) of
          None \<Rightarrow> Inl (NullDereference (calls M))
        | Some unit \<Rightarrow>
       (case m_materializer_ap (this M) of
          None \<Rightarrow> Inl (NullDereference (calls M))
        | Some materializer \<Rightarrow>
        (case
           (if m_materialized_address (this M) = LLDB_INVALID_ADDRESS then
              let policy = (if m_can_interpret (this M) then eAllocationPolicyHostOnly
                            else eAllocationPolicyMirror);
                  perms = {ePermissionsReadable, ePermissionsWritable};
                  byte_size = (ucast (GetStructByteSize materializer) :: size_t);
                  alignment = (ucast (GetStructAlignment materializer) :: 8 word)
              in (case Malloc co (calls M) byte_size alignment perms policy
                  of (address, alloc_error) \<Rightarrow>
                  let M = record_call
                            (Call_Malloc byte_size alignment perms policy
                               address alloc_error) M;
                      M = M\<lparr>this := (this M)\<lparr>m_materialized_address := address\<rparr>\<rparr>
                  in if \<not> Success alloc_error then
                       Inl (Printf (''Couldn't allocate space for materialized struct: ''
                                    @ AsCString alloc_error @ ''\<newline>'') M)
                     else Inr M)
            else Inr M)
         of Inl M \<Rightarrow> Inr (False, struct_address, M)
          | Inr M \<Rightarrow>
         let struct_address = m_materialized_address (this M) in
         (case
            (if m_can_interpret (this M)
                \<and> m_stack_frame_bottom (this M) = LLDB_INVALID_ADDRESS then
               let perms = {ePermissionsReadable, ePermissionsWritable}
               in (case Malloc co (calls M) stack_frame_size 8 perms eAllocationPolicyHostOnly
                   of (address, alloc_error) \<Rightarrow>
                   let M = record_call
                             (Call_Malloc stack_frame_size 8 perms eAllocationPolicyHostOnly
                                address alloc_error) M;
                       M = M\<lparr>this := (this M)\<lparr>m_stack_frame_bottom := address\<rparr>\<rparr>;
                       M = M\<lparr>this := (this M)\<lparr>m_stack_frame_top :=
                                 m_stack_frame_bottom (this M) + stack_frame_size\<rparr>\<rparr>
                   in if \<not> Success alloc_error then
                        Inl (Printf (''Couldn't allocate space for the stack frame: ''
                                     @ AsCString alloc_error @ ''\<newline>'') M)
                      else Inr M)
             else Inr M)
          of Inl M \<Rightarrow> Inr (False, struct_address, M)
           | Inr M \<Rightarrow>
          (case Materialize co (calls M) frame struct_address of
             (dematerializer, materialize_error) \<Rightarrow>
             let M = record_call
                       (Call_Materialize frame struct_address dematerializer materialize_error) M;
                 M = M\<lparr>this := (this M)\<lparr>m_dematerializer_sp := dematerializer\<rparr>\<rparr>
             in if \<not> Success materialize_error then
                  Inr (False, struct_address,
                       Printf (''Couldn't materialize: '' @ AsCString materialize_error
                               @ ''\<newline>'') M)
                else Inr (True, struct_address, M))))))
     else Inr (True, struct_address, M))"

subsection \<open>FinalizeJITExecution\<close>

definition FinalizeJITExecution ::
  "Collaborators \<Rightarrow> addr_t \<Rightarrow> addr_t \<Rightarrow> Machine \<Rightarrow> bool \<times> Machine" where
  "FinalizeJITExecution co function_stack_bottom function_stack_top M =
    (case m_dematerializer_sp (this M) of
       None \<Rightarrow>
         (False,
          Printf ''Couldn't apply expression side effects : no dematerializer is present'' M)
     | Some dematerializer \<Rightarrow>
        let dematerialize_error =
              Dematerialize co (calls M) dematerializer function_stack_bottom function_stack_top;
            M = record_call
                  (Call_Dematerialize dematerializer function_stack_bottom function_stack_top
                     dematerialize_error) M
        in if \<not> Success dematerialize_error then
             (False,
              Printf (''Couldn't apply expression side effects : ''
                      @ AsCString dematerialize_error @ ''\<newline>'') M)
           else
             let r = GetResultAfterDematerialization co (calls M);
                 M = record_call (Call_GetResultAfterDematerialization r) M;
                 M = M\<lparr>result := r\<rparr>;
                 M = (if result M \<noteq> None then record_call Call_TransferAddress M else M);
                 M = M\<lparr>this := (this M)\<lparr>m_dematerializer_sp := None\<rparr>\<rparr>
             in (True, M))"

subsection \<open>Execute\<close>

text \<open>
  \<^verbatim>\<open>Execute\<close> is written here in the blocks of its body, in source order. An execution
  path either returns from \<^verbatim>\<open>Execute\<close> (\<open>Inl\<close>, with the value returned) or falls
  through to the finalization with the stack bounds it computed (\<open>Inr\<close>).
\<close>

type_synonym path_result = "(ExpressionResults \<times> Machine) + (addr_t \<times> addr_t \<times> Machine)"

text \<open>Lines 99 to 133, the branch \<^verbatim>\<open>if (m_can_interpret)\<close>.\<close>

definition interpret_path :: "Collaborators \<Rightarrow> addr_t \<Rightarrow> Machine \<Rightarrow> Fault + path_result" where
  "interpret_path co struct_address M0 =
    (case m_execution_unit_sp (this M0) of
       None \<Rightarrow> Inl (NullDereference (calls M0))
     | Some unit \<Rightarrow>
      if GetModule unit = None \<or> GetFunction unit = None then
        Inr (Inl (eExpressionSetupError,
                  Printf ''Supposed to interpret, but nothing is there'' M0))
      else
       (case AddInitialArguments co (calls M0) of (added, args, text) \<Rightarrow>
        let M = Printf text (record_call (Call_AddInitialArguments added) M0) in
        if \<not> added then
          Inr (Inl (eExpressionSetupError,
                    Printf ''Errored out in Execute, couldn't AddInitialArguments'' M))
        else
          let args = args @ [struct_address];
              function_stack_bottom = m_stack_frame_bottom (this M);
              function_stack_top = m_stack_frame_top (this M);
              interpreter_error =
                Interpret co (calls M) args function_stack_bottom function_stack_top;
              M = record_call
                    (Call_Interpret args function_stack_bottom function_stack_top
                       interpreter_error) M
          in if \<not> Success interpreter_error then
               Inr (Inl (eExpressionDiscarded,
                         Printf (''Supposed to interpret, but failed: ''
                                 @ AsCString interpreter_error) M))
             else Inr (Inr (function_stack_bottom, function_stack_top, M))))"

text \<open>
  Lines 185 to 209: what is written and done once the plan stopped with
  \<open>eExpressionInterrupted\<close> or \<open>eExpressionHitBreakpoint\<close>.
\<close>

definition report_interruption ::
  "Collaborators \<Rightarrow> EvaluateExpressionOptions \<Rightarrow> ExpressionResults \<Rightarrow> Machine \<Rightarrow> Machine" where
  "report_interruption co options execution_result M0 =
    (let error_desc =
           (case GetRealStopInfo co (calls M0) of None \<Rightarrow> None
            | Some real_stop_info \<Rightarrow> GetDescription real_stop_info);
         M = (case error_desc of
                Some desc \<Rightarrow> Printf (''Execution was interrupted, reason: '' @ desc @ ''.'') M0
              | None \<Rightarrow> PutCString ''Execution was interrupted.'' M0)
     in if (execution_result = eExpressionInterrupted \<and> DoesUnwindOnError options)
           \<or> (execution_result = eExpressionHitBreakpoint \<and> DoesIgnoreBreakpoints options)
        then PutCString process_returned_text M
        else
          let M = (if execution_result = eExpressionHitBreakpoint
                   then record_call Call_TransferExpressionOwnership M else M)
          in PutCString process_left_text M)"

text \<open>Lines 183 to 226: the classification of the result of \<^verbatim>\<open>RunThreadPlan\<close>.\<close>

definition after_RunThreadPlan ::
  "Collaborators \<Rightarrow> EvaluateExpressionOptions \<Rightarrow> ExpressionResults \<Rightarrow> addr_t \<Rightarrow> addr_t
     \<Rightarrow> Machine \<Rightarrow> path_result" where
  "after_RunThreadPlan co options execution_result function_stack_bottom function_stack_top M =
    (if execution_result = eExpressionInterrupted
        \<or> execution_result = eExpressionHitBreakpoint then
       Inl (execution_result, report_interruption co options execution_result M)
     else if execution_result = eExpressionStoppedForDebug then
       Inl (execution_result, PutCString stopped_for_debug_text M)
     else if execution_result \<noteq> eExpressionCompleted then
       Inl (execution_result,
            Printf (''Couldn't execute function; result was ''
                    @ ExecutionResultAsCString co execution_result @ ''\<newline>'') M)
     else Inr (function_stack_bottom, function_stack_top, M))"

text \<open>
  Lines 134 to 227, the \<^verbatim>\<open>else\<close> branch: the call inside the target process.
  \<^verbatim>\<open>new\<close> does not return null, so the test \<^verbatim>\<open>!call_plan_sp\<close> is never true.
\<close>

definition call_path ::
  "Collaborators \<Rightarrow> ExecutionContext \<Rightarrow> EvaluateExpressionOptions \<Rightarrow> addr_t \<Rightarrow> Machine
     \<Rightarrow> Fault + path_result" where
  "call_path co exe_ctx options struct_address M0 =
    (if \<not> HasThreadScope exe_ctx then
       Inr (Inl (eExpressionSetupError,
                 Printf ''UserExpression::Execute called with no thread selected.'' M0))
     else
      let wrapper_address = m_jit_start_addr (this M0) in
      (case AddInitialArguments co (calls M0) of (added, args, text) \<Rightarrow>
       let M = Printf text (record_call (Call_AddInitialArguments added) M0) in
       if \<not> added then
         Inr (Inl (eExpressionSetupError,
                   Printf ''Errored out in Execute, couldn't AddInitialArguments'' M))
       else
        let args = args @ [struct_address];
            M = record_call (Call_ThreadPlanCallUserExpression wrapper_address args) M
        in
        (case ValidatePlan co (calls M) of (valid, text) \<Rightarrow>
         let M = Printf text (record_call (Call_ValidatePlan valid) M) in
         if \<not> valid then Inr (Inl (eExpressionSetupError, M))
         else
          let function_stack_pointer = GetFunctionStackPointer co (calls M);
              function_stack_bottom = function_stack_pointer - GetPageSize co;
              function_stack_top = function_stack_pointer;
              M = (if GetProcessPtr exe_ctx \<noteq> None
                   then record_call (Call_SetRunningUserExpression True) M else M)
          in
          (case GetProcessPtr exe_ctx of
             None \<Rightarrow> Inl (NullDereference (calls M))
           | Some process \<Rightarrow>
           (case RunThreadPlan co (calls M) of (execution_result, text) \<Rightarrow>
            let M = Printf text (record_call (Call_RunThreadPlan execution_result) M);
                M = (if GetProcessPtr exe_ctx \<noteq> None
                     then record_call (Call_SetRunningUserExpression False) M else M)
            in Inr (after_RunThreadPlan co options execution_result
                      function_stack_bottom function_stack_top M))))))"

text \<open>The whole method.\<close>

definition Execute ::
  "Collaborators \<Rightarrow> ExecutionContext \<Rightarrow> EvaluateExpressionOptions \<Rightarrow> Machine
     \<Rightarrow> Fault + (ExpressionResults \<times> Machine)" where
  "Execute co exe_ctx options M0 =
    (if m_jit_start_addr (this M0) \<noteq> LLDB_INVALID_ADDRESS \<or> m_can_interpret (this M0) then
      (case PrepareToExecuteJITExpression co LLDB_INVALID_ADDRESS M0 of
         Inl fault \<Rightarrow> Inl fault
       | Inr (False, struct_address, M) \<Rightarrow>
           Inr (eExpressionSetupError,
                Printf ''Errored out in Execute, couldn't PrepareToExecuteJITExpression'' M)
       | Inr (True, struct_address, M) \<Rightarrow>
          (case (if m_can_interpret (this M) then interpret_path co struct_address M
                 else call_path co exe_ctx options struct_address M)
           of Inl fault \<Rightarrow> Inl fault
            | Inr (Inl returned) \<Rightarrow> Inr returned
            | Inr (Inr (function_stack_bottom, function_stack_top, M)) \<Rightarrow>
               (case FinalizeJITExecution co function_stack_bottom function_stack_top M of
                  (True, M) \<Rightarrow> Inr (eExpressionCompleted, M)
                | (False, M) \<Rightarrow> Inr (eExpressionResultUnavailable, M))))
     else
       Inr (eExpressionSetupError,
            Printf ''Expression can't be run, because there is no JIT compiled function'' M0))"

subsection \<open>The allocator's contract\<close>

text \<open>
  Modelled from the spec: the allocator behind \<^verbatim>\<open>m_execution_unit_sp->Malloc\<close> is outside
  this file. Its contract (section 4.1 of the specification) is
  \<^verbatim>\<open>allocate(size, alignment, permissions, policy) -> address | AllocationError\<close>.
  Host-only memory exists only in the engine's address space. Mirrored memory is reserved in
  the target process and mirrored on the host. A failure is out of space, a refusal of the
  target, or a denied permission. The allocator does not fall back between policies: a
  request is served under the policy it names, or it fails.

  What the engine's address space and the target process can give is a parameter, and so
  is the value the C++ function returns along with an error, about which the contract is
  silent.
\<close>

datatype AllocationError = OutOfSpace | TargetRefused | PermissionDenied

fun describe :: "AllocationError \<Rightarrow> string" where
  "describe OutOfSpace = ''out of space''"
| "describe TargetRefused = ''target refuses reservation''"
| "describe PermissionDenied = ''permission denied''"

record Allocation =
  allocated_at :: addr_t
  in_engine :: bool
  in_target :: bool

record Memory =
  engine_space ::
    "call list \<Rightarrow> size_t \<Rightarrow> 8 word \<Rightarrow> Permissions set \<Rightarrow> AllocationError + addr_t"
  target_reservation ::
    "call list \<Rightarrow> size_t \<Rightarrow> 8 word \<Rightarrow> Permissions set \<Rightarrow> AllocationError + addr_t"
  returned_with_error :: addr_t

definition allocate ::
  "Memory \<Rightarrow> call list \<Rightarrow> size_t \<Rightarrow> 8 word \<Rightarrow> Permissions set \<Rightarrow> AllocationPolicy
     \<Rightarrow> AllocationError + Allocation" where
  "allocate memory h byte_size alignment perms policy =
    (case policy of
       eAllocationPolicyHostOnly \<Rightarrow>
         (case engine_space memory h byte_size alignment perms of
            Inl failure \<Rightarrow> Inl failure
          | Inr address \<Rightarrow>
              Inr \<lparr>allocated_at = address, in_engine = True, in_target = False\<rparr>)
     | eAllocationPolicyMirror \<Rightarrow>
         (case target_reservation memory h byte_size alignment perms of
            Inl failure \<Rightarrow> Inl failure
          | Inr address \<Rightarrow>
              Inr \<lparr>allocated_at = address, in_engine = True, in_target = True\<rparr>))"

text \<open>The same allocator seen through the signature of \<^verbatim>\<open>Malloc\<close>.\<close>

definition Malloc_by_contract ::
  "Memory \<Rightarrow> call list \<Rightarrow> size_t \<Rightarrow> 8 word \<Rightarrow> Permissions set \<Rightarrow> AllocationPolicy
     \<Rightarrow> addr_t \<times> Error" where
  "Malloc_by_contract memory h byte_size alignment perms policy =
    (case allocate memory h byte_size alignment perms policy of
       Inl failure \<Rightarrow> (returned_with_error memory, Failed (describe failure))
     | Inr allocation \<Rightarrow> (allocated_at allocation, NoError))"

subsection \<open>Reading the list of calls\<close>

text \<open>The calls made between two states of the same run.\<close>

definition new_calls :: "Machine \<Rightarrow> Machine \<Rightarrow> call list" where
  "new_calls M M' = drop (length (calls M)) (calls M')"

text \<open>The calls that \<^verbatim>\<open>PrepareToExecuteJITExpression\<close> makes.\<close>

fun is_prepare_call :: "call \<Rightarrow> bool" where
  "is_prepare_call (Call_LockAndCheckContext locked) = True"
| "is_prepare_call (Call_Malloc byte_size alignment perms policy address e) = True"
| "is_prepare_call (Call_Materialize frame address dematerializer e) = True"
| "is_prepare_call c = False"

fun is_Malloc :: "call \<Rightarrow> bool" where
  "is_Malloc (Call_Malloc byte_size alignment perms policy address e) = True"
| "is_Malloc c = False"

text \<open>An execution path reporting completion: the thread plan, or the interpreter.\<close>

fun reports_completed :: "call \<Rightarrow> bool" where
  "reports_completed (Call_RunThreadPlan execution_result) =
     (execution_result = eExpressionCompleted)"
| "reports_completed (Call_Interpret args stack_lo stack_hi e) = Success e"
| "reports_completed c = False"

text \<open>A dematerialization that succeeded.\<close>

fun dematerialized :: "call \<Rightarrow> bool" where
  "dematerialized (Call_Dematerialize d stack_lo stack_hi e) = Success e"
| "dematerialized c = False"

text \<open>The calls that \<^verbatim>\<open>FinalizeJITExecution\<close> makes.\<close>

fun is_finalize_call :: "call \<Rightarrow> bool" where
  "is_finalize_call (Call_Dematerialize d stack_lo stack_hi e) = True"
| "is_finalize_call (Call_GetResultAfterDematerialization v) = True"
| "is_finalize_call Call_TransferAddress = True"
| "is_finalize_call c = False"

text \<open>Building, validating or running a call plan.\<close>

fun is_plan_call :: "call \<Rightarrow> bool" where
  "is_plan_call (Call_ThreadPlanCallUserExpression wrapper_address args) = True"
| "is_plan_call (Call_ValidatePlan valid) = True"
| "is_plan_call (Call_RunThreadPlan execution_result) = True"
| "is_plan_call c = False"

fun is_Interpret :: "call \<Rightarrow> bool" where
  "is_Interpret (Call_Interpret args stack_lo stack_hi e) = True"
| "is_Interpret c = False"

fun is_RunThreadPlan :: "call \<Rightarrow> bool" where
  "is_RunThreadPlan (Call_RunThreadPlan execution_result) = True"
| "is_RunThreadPlan c = False"

fun is_SetRunningUserExpression :: "call \<Rightarrow> bool" where
  "is_SetRunningUserExpression (Call_SetRunningUserExpression on) = True"
| "is_SetRunningUserExpression c = False"

text \<open>The calls an execution path makes before it runs anything.\<close>

fun is_setup_call :: "call \<Rightarrow> bool" where
  "is_setup_call (Call_AddInitialArguments added) = True"
| "is_setup_call (Call_ThreadPlanCallUserExpression wrapper_address args) = True"
| "is_setup_call (Call_ValidatePlan valid) = True"
| "is_setup_call c = False"

text \<open>The interpreter was called and reported a failure.\<close>

fun interpret_failed :: "call \<Rightarrow> bool" where
  "interpret_failed (Call_Interpret args stack_lo stack_hi e) = (\<not> Success e)"
| "interpret_failed c = False"

subsection \<open>Repeated preparation\<close>


subsection \<open>Concrete runs\<close>

text \<open>
  An expression object as the constructor leaves it, one that was compiled to machine code,
  and one that was judged interpretable; collaborators that all succeed; a stopped thread.
\<close>

definition fresh :: Machine where
  "fresh = \<lparr>this = constructed, error_stream = [], result = None, calls = []\<rparr>"

definition parsed_jit :: Machine where
  "parsed_jit =
     fresh\<lparr>this := constructed
        \<lparr>m_jit_start_addr := 0x4000,
         m_execution_unit_sp := Some \<lparr>GetModule = Some 1, GetFunction = Some 2\<rparr>,
         m_materializer_ap := Some \<lparr>GetStructByteSize = 16, GetStructAlignment = 8\<rparr>\<rparr>\<rparr>"

definition parsed_interpretable :: Machine where
  "parsed_interpretable =
     fresh\<lparr>this := constructed
        \<lparr>m_can_interpret := True,
         m_execution_unit_sp := Some \<lparr>GetModule = Some 1, GetFunction = Some 2\<rparr>,
         m_materializer_ap := Some \<lparr>GetStructByteSize = 16, GetStructAlignment = 8\<rparr>\<rparr>\<rparr>"

definition co_ok :: Collaborators where
  "co_ok =
     \<lparr>LockAndCheckContext = (\<lambda>h. (True, Some 7)),
      Malloc = (\<lambda>h byte_size alignment perms policy.
                  (0x1000 + of_nat (length h) * 0x100000, NoError)),
      Materialize = (\<lambda>h frame address. (Some 5, NoError)),
      AddInitialArguments = (\<lambda>h. (True, [], [])),
      Interpret = (\<lambda>h args stack_lo stack_hi. NoError),
      ValidatePlan = (\<lambda>h. (True, [])),
      GetFunctionStackPointer = (\<lambda>h. 0x7fff0000),
      GetPageSize = 4096,
      RunThreadPlan = (\<lambda>h. (eExpressionCompleted, [])),
      GetRealStopInfo = (\<lambda>h. None),
      ExecutionResultAsCString = (\<lambda>r. ''eExpressionOther''),
      Dematerialize = (\<lambda>h d stack_lo stack_hi. NoError),
      GetResultAfterDematerialization = (\<lambda>h. Some 9)\<rparr>"

definition stopped_thread :: ExecutionContext where
  "stopped_thread = \<lparr>HasThreadScope = True, GetProcessPtr = Some 3\<rparr>"

definition no_thread :: ExecutionContext where
  "no_thread = \<lparr>HasThreadScope = False, GetProcessPtr = Some 3\<rparr>"

definition default_options :: EvaluateExpressionOptions where
  "default_options = \<lparr>DoesUnwindOnError = False, DoesIgnoreBreakpoints = False\<rparr>"

definition unwind_on_error :: EvaluateExpressionOptions where
  "unwind_on_error = \<lparr>DoesUnwindOnError = True, DoesIgnoreBreakpoints = False\<rparr>"

definition ignore_breakpoints :: EvaluateExpressionOptions where
  "ignore_breakpoints = \<lparr>DoesUnwindOnError = False, DoesIgnoreBreakpoints = True\<rparr>"

text \<open>Collaborators whose thread plan stops with the given result.\<close>

definition co_stops :: "ExpressionResults \<Rightarrow> Collaborators" where
  "co_stops execution_result = co_ok\<lparr>RunThreadPlan := (\<lambda>h. (execution_result, []))\<rparr>"

text \<open>Collaborators whose dematerialization fails, and whose interpreter fails.\<close>

definition co_dematerialize_fails :: Collaborators where
  "co_dematerialize_fails =
     co_ok\<lparr>Dematerialize := (\<lambda>h d stack_lo stack_hi. Failed ''read failed'')\<rparr>"

definition co_interpret_fails :: Collaborators where
  "co_interpret_fails =
     co_ok\<lparr>Interpret := (\<lambda>h args stack_lo stack_hi. Failed ''unsupported instruction'')\<rparr>"

text \<open>Collaborators for which the execution context has changed.\<close>

definition co_stale :: Collaborators where
  "co_stale = co_ok\<lparr>LockAndCheckContext := (\<lambda>h. (False, None))\<rparr>"

text \<open>An interpretable expression whose execution unit has no module.\<close>

definition parsed_without_module :: Machine where
  "parsed_without_module =
     fresh\<lparr>this := constructed
        \<lparr>m_can_interpret := True,
         m_execution_unit_sp := Some \<lparr>GetModule = None, GetFunction = Some 2\<rparr>,
         m_materializer_ap := Some \<lparr>GetStructByteSize = 16, GetStructAlignment = 8\<rparr>\<rparr>\<rparr>"

text \<open>A compiled expression that has been prepared before: its struct is allocated.\<close>

definition prepared_before :: Machine where
  "prepared_before =
     parsed_jit\<lparr>this := (this parsed_jit)
        \<lparr>m_materialized_address := 0x101000, m_dematerializer_sp := Some 5\<rparr>\<rparr>"




definition co_dematerialize_fails_once :: Collaborators where
  "co_dematerialize_fails_once =
     co_ok\<lparr>Dematerialize := (\<lambda>h d stack_lo stack_hi.
                               if h = [] then Failed ''read failed'' else NoError)\<rparr>"

text \<open>
  Memory in which the engine has room and the target refuses, and memory in which both
  give; collaborators whose allocator is the contract's over a given memory.
\<close>

definition target_refuses :: Memory where
  "target_refuses =
     \<lparr>engine_space = (\<lambda>h byte_size alignment perms. Inr 0x9000),
      target_reservation = (\<lambda>h byte_size alignment perms. Inl TargetRefused),
      returned_with_error = LLDB_INVALID_ADDRESS\<rparr>"

definition roomy :: Memory where
  "roomy =
     \<lparr>engine_space = (\<lambda>h byte_size alignment perms. Inr 0x9000),
      target_reservation = (\<lambda>h byte_size alignment perms. Inr 0x7000),
      returned_with_error = LLDB_INVALID_ADDRESS\<rparr>"

definition co_contract :: "Memory \<Rightarrow> Collaborators" where
  "co_contract memory = co_ok\<lparr>Malloc := Malloc_by_contract memory\<rparr>"

section \<open>Properties\<close>

subsection \<open>Writing to the stream and recording a call\<close>

lemmas path_defs =
  interpret_path_def call_path_def after_RunThreadPlan_def report_interruption_def

lemmas run_defs =
  Execute_def path_defs PrepareToExecuteJITExpression_def FinalizeJITExecution_def Let_def
  new_calls_def stack_frame_size_def LLDB_INVALID_ADDRESS_def constructed_def
  fresh_def parsed_jit_def parsed_interpretable_def prepared_before_def
  co_ok_def co_stops_def co_stale_def stopped_thread_def default_options_def

lemmas prepare_splits = prod.splits option.splits if_splits sum.splits

lemma Printf_fields [simp]:
  "this (Printf text M) = this M"
  "calls (Printf text M) = calls M"
  "result (Printf text M) = result M"
  "error_stream (Printf text M) = error_stream M @ text"
  by (simp_all add: Printf_def)

lemma PutCString_fields [simp]:
  "this (PutCString text M) = this M"
  "calls (PutCString text M) = calls M"
  "result (PutCString text M) = result M"
  "error_stream (PutCString text M) = error_stream M @ text"
  by (simp_all add: PutCString_def)

lemma record_call_fields [simp]:
  "this (record_call c M) = this M"
  "calls (record_call c M) = calls M @ [c]"
  "result (record_call c M) = result M"
  "error_stream (record_call c M) = error_stream M"
  by (simp_all add: record_call_def)

lemma new_calls_append [simp]:
  "calls M' = calls M @ cs \<Longrightarrow> new_calls M M' = cs"
  by (simp add: new_calls_def)

subsection \<open>The kinds of call exclude each other\<close>

lemma not_reports_completed [simp]:
  "is_prepare_call c \<Longrightarrow> \<not> reports_completed c"
  "is_setup_call c \<Longrightarrow> \<not> reports_completed c"
  "is_finalize_call c \<Longrightarrow> \<not> reports_completed c"
  by (cases c; simp)+

lemma not_dematerialized [simp]:
  "is_prepare_call c \<Longrightarrow> \<not> dematerialized c"
  "is_setup_call c \<Longrightarrow> \<not> dematerialized c"
  by (cases c; simp)+

lemma not_is_finalize_call [simp]:
  "is_prepare_call c \<Longrightarrow> \<not> is_finalize_call c"
  "is_setup_call c \<Longrightarrow> \<not> is_finalize_call c"
  by (cases c; simp)+

lemma not_is_plan_call [simp]:
  "is_prepare_call c \<Longrightarrow> \<not> is_plan_call c"
  by (cases c; simp)

lemma not_is_Interpret [simp]:
  "is_prepare_call c \<Longrightarrow> \<not> is_Interpret c"
  "is_setup_call c \<Longrightarrow> \<not> is_Interpret c"
  "is_finalize_call c \<Longrightarrow> \<not> is_Interpret c"
  by (cases c; simp)+

lemma not_interpret_failed [simp]:
  "is_prepare_call c \<Longrightarrow> \<not> interpret_failed c"
  "is_setup_call c \<Longrightarrow> \<not> interpret_failed c"
  "is_finalize_call c \<Longrightarrow> \<not> interpret_failed c"
  by (cases c; simp)+

lemma not_is_RunThreadPlan [simp]:
  "is_prepare_call c \<Longrightarrow> \<not> is_RunThreadPlan c"
  "is_setup_call c \<Longrightarrow> \<not> is_RunThreadPlan c"
  "is_finalize_call c \<Longrightarrow> \<not> is_RunThreadPlan c"
  by (cases c; simp)+

lemma not_is_SetRunningUserExpression [simp]:
  "is_prepare_call c \<Longrightarrow> \<not> is_SetRunningUserExpression c"
  "is_setup_call c \<Longrightarrow> \<not> is_SetRunningUserExpression c"
  "is_finalize_call c \<Longrightarrow> \<not> is_SetRunningUserExpression c"
  by (cases c; simp)+

subsection \<open>What each block does\<close>

lemma Prepare_calls:
  assumes "PrepareToExecuteJITExpression co a M = Inr (ok, a', M1)"
  shows "\<exists>pc. calls M1 = calls M @ pc \<and> (\<forall>c \<in> set pc. is_prepare_call c)"
  using assms
  by (auto simp: PrepareToExecuteJITExpression_def Let_def split: prepare_splits)

lemma Prepare_keeps:
  assumes "PrepareToExecuteJITExpression co a M = Inr (ok, a', M1)"
  shows "result M1 = result M"
    and "m_can_interpret (this M1) = m_can_interpret (this M)"
    and "m_jit_start_addr (this M1) = m_jit_start_addr (this M)"
    and "m_execution_unit_sp (this M1) = m_execution_unit_sp (this M)"
    and "m_materializer_ap (this M1) = m_materializer_ap (this M)"
  using assms
  by (auto simp: PrepareToExecuteJITExpression_def Let_def split: prepare_splits)

lemma interpret_path_cases:
  assumes "interpret_path co a M1 = Inr out"
  obtains
    (early) M2 cs where "out = Inl (eExpressionSetupError, M2)" "calls M2 = calls M1 @ cs"
      "\<forall>c \<in> set cs. is_setup_call c" "result M2 = result M1"
  | (discarded) M2 args lo hi e unit where "out = Inl (eExpressionDiscarded, M2)"
      "calls M2 = calls M1 @ [Call_AddInitialArguments True, Call_Interpret args lo hi e]"
      "\<not> Success e" "result M2 = result M1"
      "m_execution_unit_sp (this M1) = Some unit" "GetModule unit \<noteq> None" "GetFunction unit \<noteq> None"
  | (interpreted) M2 args lo hi e unit where "out = Inr (lo, hi, M2)"
      "calls M2 = calls M1 @ [Call_AddInitialArguments True, Call_Interpret args lo hi e]"
      "Success e" "result M2 = result M1" "this M2 = this M1"
      "m_execution_unit_sp (this M1) = Some unit" "GetModule unit \<noteq> None" "GetFunction unit \<noteq> None"
  using assms
  by (auto simp: interpret_path_def Let_def split: option.splits if_splits prod.splits)

lemma call_path_cases:
  assumes "call_path co exe_ctx options a M1 = Inr out"
  obtains
    (early) M2 cs where "out = Inl (eExpressionSetupError, M2)" "calls M2 = calls M1 @ cs"
      "\<forall>c \<in> set cs. is_setup_call c" "result M2 = result M1"
  | (ran) M2 args res lo hi where
      "out = after_RunThreadPlan co options res lo hi M2"
      "calls M2 = calls M1 @
         [Call_AddInitialArguments True,
          Call_ThreadPlanCallUserExpression (m_jit_start_addr (this M1)) args,
          Call_ValidatePlan True, Call_SetRunningUserExpression True,
          Call_RunThreadPlan res, Call_SetRunningUserExpression False]"
      "result M2 = result M1" "this M2 = this M1"
  using assms
  by (auto simp: call_path_def Let_def split: option.splits if_splits prod.splits)


lemma after_RunThreadPlan_cases:
  assumes "after_RunThreadPlan co options res lo hi M2 = out"
  obtains
    (stopped) M3 where "out = Inl (res, M3)" "res \<noteq> eExpressionCompleted"
      "calls M3 = calls M2 @
         (if res = eExpressionHitBreakpoint \<and> \<not> DoesIgnoreBreakpoints options
          then [Call_TransferExpressionOwnership] else [])"
      "result M3 = result M2" "this M3 = this M2"
      "res = eExpressionInterrupted \<or> res = eExpressionHitBreakpoint
         \<longrightarrow> M3 = report_interruption co options res M2"
  | (completed) "out = Inr (lo, hi, M2)" "res = eExpressionCompleted"
  using assms
  by (auto simp: after_RunThreadPlan_def report_interruption_def Let_def
           split: option.splits if_splits)

lemma FinalizeJITExecution_calls:
  assumes "FinalizeJITExecution co lo hi M2 = (ok, M3)"
  shows "\<exists>fin. calls M3 = calls M2 @ fin \<and> (\<forall>c \<in> set fin. is_finalize_call c)
           \<and> (ok \<longleftrightarrow> list_ex dematerialized fin)"
  using assms
  by (auto simp: FinalizeJITExecution_def Let_def split: option.splits if_splits)

text \<open>How one run of \<^verbatim>\<open>Execute\<close> can go, read off the calls it made.\<close>

lemma Execute_cases:
  assumes "Execute co exe_ctx options M = Inr (r, M')"
  obtains
    (setup_error) cs where "r = eExpressionSetupError" "new_calls M M' = cs"
      "\<forall>c \<in> set cs. is_prepare_call c \<or> is_setup_call c" "result M' = result M"
  | (discarded) pc args lo hi e unit where "r = eExpressionDiscarded"
      "m_can_interpret (this M)"
      "new_calls M M' = pc @ [Call_AddInitialArguments True, Call_Interpret args lo hi e]"
      "\<forall>c \<in> set pc. is_prepare_call c" "\<not> Success e" "result M' = result M"
      "m_execution_unit_sp (this M) = Some unit" "GetModule unit \<noteq> None"
      "GetFunction unit \<noteq> None"
  | (interpreted) pc args lo hi e fin unit where "m_can_interpret (this M)"
      "new_calls M M' =
         pc @ [Call_AddInitialArguments True, Call_Interpret args lo hi e] @ fin"
      "\<forall>c \<in> set pc. is_prepare_call c" "Success e"
      "\<forall>c \<in> set fin. is_finalize_call c"
      "r = (if list_ex dematerialized fin then eExpressionCompleted
            else eExpressionResultUnavailable)"
      "m_execution_unit_sp (this M) = Some unit" "GetModule unit \<noteq> None"
      "GetFunction unit \<noteq> None"
  | (stopped) pc args res M2 where "\<not> m_can_interpret (this M)" "r = res"
      "res \<noteq> eExpressionCompleted"
      "calls M2 = calls M @ pc @
         [Call_AddInitialArguments True,
          Call_ThreadPlanCallUserExpression (m_jit_start_addr (this M)) args,
          Call_ValidatePlan True, Call_SetRunningUserExpression True,
          Call_RunThreadPlan res, Call_SetRunningUserExpression False]"
      "calls M' = calls M2 @
         (if res = eExpressionHitBreakpoint \<and> \<not> DoesIgnoreBreakpoints options
          then [Call_TransferExpressionOwnership] else [])"
      "\<forall>c \<in> set pc. is_prepare_call c" "result M' = result M"
      "res = eExpressionInterrupted \<or> res = eExpressionHitBreakpoint
         \<longrightarrow> M' = report_interruption co options res M2"
  | (completed) pc args fin where "\<not> m_can_interpret (this M)"
      "new_calls M M' = pc @
         [Call_AddInitialArguments True,
          Call_ThreadPlanCallUserExpression (m_jit_start_addr (this M)) args,
          Call_ValidatePlan True, Call_SetRunningUserExpression True,
          Call_RunThreadPlan eExpressionCompleted, Call_SetRunningUserExpression False]
         @ fin"
      "\<forall>c \<in> set pc. is_prepare_call c" "\<forall>c \<in> set fin. is_finalize_call c"
      "r = (if list_ex dematerialized fin then eExpressionCompleted
            else eExpressionResultUnavailable)"
proof (cases "m_jit_start_addr (this M) \<noteq> LLDB_INVALID_ADDRESS \<or> m_can_interpret (this M)")
  case False
  with assms have "r = eExpressionSetupError" "new_calls M M' = []" "result M' = result M"
    by (auto simp: Execute_def new_calls_def)
  then show thesis using setup_error[where cs="[]"] by simp
next
  case guard: True
  then obtain ok a M1
    where prep: "PrepareToExecuteJITExpression co LLDB_INVALID_ADDRESS M = Inr (ok, a, M1)"
    using assms
    by (cases "PrepareToExecuteJITExpression co LLDB_INVALID_ADDRESS M")
       (auto simp: Execute_def)
  from Prepare_calls[OF prep] obtain pc
    where pc: "calls M1 = calls M @ pc" "\<forall>c \<in> set pc. is_prepare_call c"
    by blast
  note keeps = Prepare_keeps[OF prep]
  show thesis
  proof (cases ok)
    case False
    with assms guard prep have "r = eExpressionSetupError" "calls M' = calls M1"
      "result M' = result M1"
      by (auto simp: Execute_def)
    with pc keeps(1) show thesis using setup_error[where cs=pc] by simp
  next
    case True
    let ?path = "if m_can_interpret (this M1) then interpret_path co a M1
                 else call_path co exe_ctx options a M1"
    from assms guard prep True obtain out where path: "?path = Inr out"
      by (cases ?path) (auto simp: Execute_def)
    have fin: "(case out of Inl returned \<Rightarrow> Inr returned
                | Inr (lo, hi, M2) \<Rightarrow>
                   (case FinalizeJITExecution co lo hi M2 of
                      (True, M3) \<Rightarrow> Inr (eExpressionCompleted, M3)
                    | (False, M3) \<Rightarrow> Inr (eExpressionResultUnavailable, M3)))
               = (Inr (r, M') :: Fault + ExpressionResults \<times> Machine)"
      using assms guard prep True path
      by (simp add: Execute_def split: sum.splits prod.splits)
    show thesis
    proof (cases "m_can_interpret (this M1)")
      case interp: True
      with path have "interpret_path co a M1 = Inr out" by simp
      then show thesis
      proof (cases rule: interpret_path_cases)
        case (early M2 cs)
        with fin have "r = eExpressionSetupError" "M' = M2" by auto
        with early pc keeps(1) show thesis
          using setup_error[where cs="pc @ cs"] by auto
      next
        case (discarded M2 args lo hi e unit)
        with fin have "r = eExpressionDiscarded" "M' = M2" by auto
        with discarded pc keeps interp show thesis
          using that(2)[where pc=pc and args=args and lo=lo and hi=hi and e=e and unit=unit] by auto
      next
        case (interpreted M2 args lo hi e unit)
        obtain ok' M3 where f: "FinalizeJITExecution co lo hi M2 = (ok', M3)"
          by (cases "FinalizeJITExecution co lo hi M2") auto
        from FinalizeJITExecution_calls[OF f] obtain fin' where
          fin': "calls M3 = calls M2 @ fin'" "\<forall>c \<in> set fin'. is_finalize_call c"
          "ok' \<longleftrightarrow> list_ex dematerialized fin'" by blast
        from fin interpreted f have "M' = M3"
          "r = (if ok' then eExpressionCompleted else eExpressionResultUnavailable)"
          by (auto split: bool.splits)
        with interpreted pc keeps interp fin' show thesis
          using that(3)[where pc=pc and args=args and lo=lo and hi=hi and e=e and fin=fin' and unit=unit] by auto
      qed
    next
      case direct: False
      with path have "call_path co exe_ctx options a M1 = Inr out" by simp
      then show thesis
      proof (cases rule: call_path_cases)
        case (early M2 cs)
        with fin have "r = eExpressionSetupError" "M' = M2" by auto
        with early pc keeps(1) show thesis
          using setup_error[where cs="pc @ cs"] by auto
      next
        case (ran M2 args res lo hi)
        from ran(1)[symmetric] show thesis
        proof (cases rule: after_RunThreadPlan_cases)
          case (stopped M3)
          with fin have "r = res" "M' = M3" by auto
          with stopped ran pc keeps direct show thesis
            using that(4)[where pc=pc and args=args and res=res and ?M2.0=M2] by auto
        next
          case completed
          obtain ok' M3 where f: "FinalizeJITExecution co lo hi M2 = (ok', M3)"
            by (cases "FinalizeJITExecution co lo hi M2") auto
          from FinalizeJITExecution_calls[OF f] obtain fin' where
            fin': "calls M3 = calls M2 @ fin'" "\<forall>c \<in> set fin'. is_finalize_call c"
            "ok' \<longleftrightarrow> list_ex dematerialized fin'" by blast
          from fin completed f have "M' = M3"
            "r = (if ok' then eExpressionCompleted else eExpressionResultUnavailable)"
            by (auto split: bool.splits)
          with completed ran pc keeps direct fin' show thesis
            using that(5)[where pc=pc and args=args and fin=fin'] by auto
        qed
      qed
    qed
  qed
qed

lemma Prepare_returns:
  assumes "m_execution_unit_sp (this M) \<noteq> None" and "m_materializer_ap (this M) \<noteq> None"
  shows "\<exists>ok a' M1. PrepareToExecuteJITExpression co a M = Inr (ok, a', M1)"
proof -
  have "\<not> isl (PrepareToExecuteJITExpression co a M)"
    using assms
    by (auto simp: PrepareToExecuteJITExpression_def Let_def split: prepare_splits)
  then show ?thesis
    by (cases "PrepareToExecuteJITExpression co a M") auto
qed

lemma interpret_path_returns:
  assumes "m_execution_unit_sp (this M1) \<noteq> None"
  shows "\<exists>out. interpret_path co a M1 = Inr out"
proof -
  have "\<not> isl (interpret_path co a M1)"
    using assms by (auto simp: interpret_path_def Let_def split: prepare_splits)
  then show ?thesis by (cases "interpret_path co a M1") auto
qed

lemma call_path_returns:
  assumes "\<not> HasThreadScope exe_ctx \<or> GetProcessPtr exe_ctx \<noteq> None"
  shows "\<exists>out. call_path co exe_ctx options a M1 = Inr out"
proof -
  have "\<not> isl (call_path co exe_ctx options a M1)"
    using assms by (auto simp: call_path_def Let_def split: prepare_splits)
  then show ?thesis by (cases "call_path co exe_ctx options a M1") auto
qed

text \<open>When a run returns: the pointers it dereferences unchecked are set.\<close>

lemma Execute_returns:
  assumes "m_execution_unit_sp (this M) \<noteq> None" and "m_materializer_ap (this M) \<noteq> None"
    and "m_can_interpret (this M) \<or> \<not> HasThreadScope exe_ctx \<or> GetProcessPtr exe_ctx \<noteq> None"
  shows "\<exists>r M'. Execute co exe_ctx options M = Inr (r, M')"
proof -
  from Prepare_returns[OF assms(1,2)] obtain ok a M1
    where prep: "PrepareToExecuteJITExpression co LLDB_INVALID_ADDRESS M = Inr (ok, a, M1)"
    by blast
  note keeps = Prepare_keeps[OF prep]
  let ?path = "if m_can_interpret (this M1) then interpret_path co a M1
               else call_path co exe_ctx options a M1"
  have "\<exists>out. ?path = Inr out"
    using interpret_path_returns[of M1 co a] call_path_returns[of exe_ctx co options a M1]
      assms keeps
    by auto
  then obtain out where "?path = Inr out" ..
  with prep show ?thesis
    by (cases ok; cases out)
       (auto simp: Execute_def split: prod.splits bool.splits)
qed

lemma report_interruption_text:
  "(res = eExpressionInterrupted \<and> DoesUnwindOnError options)
     \<or> (res = eExpressionHitBreakpoint \<and> DoesIgnoreBreakpoints options)
   \<Longrightarrow> \<exists>text. error_stream (report_interruption co options res M2)
                = text @ process_returned_text"
  "\<not> ((res = eExpressionInterrupted \<and> DoesUnwindOnError options)
     \<or> (res = eExpressionHitBreakpoint \<and> DoesIgnoreBreakpoints options))
   \<Longrightarrow> \<exists>text. error_stream (report_interruption co options res M2)
                = text @ process_left_text"
  by (auto simp: report_interruption_def Let_def split: option.splits)

subsection \<open>Positions in a list of calls\<close>



subsection \<open>Finalization failure after a completed run\<close>

text \<open>
  C1. Whenever the execution path reports completion (the thread plan returned
  \<open>eExpressionCompleted\<close>, or the interpreter returned without error) and the finalization
  that follows fails (no dematerialization succeeded: there was no handle, or
  \<^verbatim>\<open>Dematerialize\<close> reported an error), \<^verbatim>\<open>Execute\<close> returns
  \<open>eExpressionResultUnavailable\<close>, hence neither \<open>eExpressionCompleted\<close> nor
  \<open>eExpressionSetupError\<close>.
\<close>

theorem Execute_finalization_failed:
  assumes "Execute co exe_ctx options M = Inr (r, M')"
    and "list_ex reports_completed (new_calls M M')"
    and "\<not> list_ex dematerialized (new_calls M M')"
  shows "r = eExpressionResultUnavailable"
  using assms(1)
proof (cases rule: Execute_cases)
  case (setup_error cs)
  with assms(2) show ?thesis by (auto simp: list_ex_iff)
next
  case (discarded pc args lo hi e unit)
  with assms(2) show ?thesis by (auto simp: list_ex_iff)
next
  case (interpreted pc args lo hi e fin unit)
  with assms(3) show ?thesis by (auto simp: list_ex_iff)
next
  case (stopped pc args res M2)
  then have "new_calls M M' = pc @
         [Call_AddInitialArguments True,
          Call_ThreadPlanCallUserExpression (m_jit_start_addr (this M)) args,
          Call_ValidatePlan True, Call_SetRunningUserExpression True,
          Call_RunThreadPlan res, Call_SetRunningUserExpression False] @
         (if res = eExpressionHitBreakpoint \<and> \<not> DoesIgnoreBreakpoints options
          then [Call_TransferExpressionOwnership] else [])"
    by (simp add: new_calls_def)
  with stopped assms(2) show ?thesis by (auto simp: list_ex_iff split: if_splits)
next
  case (completed pc args fin)
  with assms(3) show ?thesis by (auto simp: list_ex_iff)
qed

theorem Execute_finalization_failed_witness:
  "\<exists>M'. Execute co_dematerialize_fails stopped_thread default_options parsed_jit
           = Inr (eExpressionResultUnavailable, M')
        \<and> list_ex reports_completed (new_calls parsed_jit M')
        \<and> \<not> list_ex dematerialized (new_calls parsed_jit M')"
proof -
  obtain r M'
    where run: "Execute co_dematerialize_fails stopped_thread default_options parsed_jit
                  = Inr (r, M')"
    and completed: "list_ex reports_completed (new_calls parsed_jit M')"
    and failed: "\<not> list_ex dematerialized (new_calls parsed_jit M')"
    by (simp add: run_defs co_dematerialize_fails_def)
  from Execute_finalization_failed[OF run completed failed] run completed failed
  show ?thesis by blast
qed

subsection \<open>A call that stops early\<close>

text \<open>
  C2. On the in-process path (the only one that runs a thread plan): when the plan stops
  with \<open>eExpressionHitBreakpoint\<close> and the options do not ignore breakpoints, the last thing
  \<^verbatim>\<open>Execute\<close> does to its collaborators is \<^verbatim>\<open>TransferExpressionOwnership\<close>, and the error
  stream ends with the text saying that the process was left where it was interrupted. When
  it stops with \<open>eExpressionInterrupted\<close> under unwind-on-error, or with
  \<open>eExpressionHitBreakpoint\<close> under ignore-breakpoints, the error stream ends with the text
  saying that the process was returned to its state before the evaluation, and the last
  call is the clearing of the running flag. In all three cases the result of the plan is
  returned as it is and the finalization is skipped: no finalization call is made and the
  result variable is untouched.
\<close>

theorem Execute_stopped_early:
  assumes "Execute co exe_ctx options M = Inr (r, M')"
  shows "(Call_RunThreadPlan eExpressionHitBreakpoint \<in> set (new_calls M M')
            \<and> \<not> DoesIgnoreBreakpoints options \<longrightarrow>
          r = eExpressionHitBreakpoint
          \<and> last (new_calls M M') = Call_TransferExpressionOwnership
          \<and> (\<exists>text. error_stream M' = text @ process_left_text)
          \<and> \<not> list_ex is_finalize_call (new_calls M M') \<and> result M' = result M)
       \<and> (Call_RunThreadPlan eExpressionInterrupted \<in> set (new_calls M M')
            \<and> DoesUnwindOnError options \<longrightarrow>
          r = eExpressionInterrupted
          \<and> last (new_calls M M') = Call_SetRunningUserExpression False
          \<and> (\<exists>text. error_stream M' = text @ process_returned_text)
          \<and> \<not> list_ex is_finalize_call (new_calls M M') \<and> result M' = result M)
       \<and> (Call_RunThreadPlan eExpressionHitBreakpoint \<in> set (new_calls M M')
            \<and> DoesIgnoreBreakpoints options \<longrightarrow>
          r = eExpressionHitBreakpoint
          \<and> last (new_calls M M') = Call_SetRunningUserExpression False
          \<and> (\<exists>text. error_stream M' = text @ process_returned_text)
          \<and> \<not> list_ex is_finalize_call (new_calls M M') \<and> result M' = result M)"
  using assms
proof (cases rule: Execute_cases)
  case (setup_error cs)
  then show ?thesis by auto
next
  case (discarded pc args lo hi e unit)
  then show ?thesis by auto
next
  case (interpreted pc args lo hi e fin unit)
  then show ?thesis by auto
next
  case (completed pc args fin)
  then show ?thesis by auto
next
  case (stopped pc args res M2)
  let ?tail = "if res = eExpressionHitBreakpoint \<and> \<not> DoesIgnoreBreakpoints options
               then [Call_TransferExpressionOwnership] else []"
  from stopped have new: "new_calls M M' = pc @
         [Call_AddInitialArguments True,
          Call_ThreadPlanCallUserExpression (m_jit_start_addr (this M)) args,
          Call_ValidatePlan True, Call_SetRunningUserExpression True,
          Call_RunThreadPlan res, Call_SetRunningUserExpression False] @ ?tail"
    by (simp add: new_calls_def)
  have ran: "Call_RunThreadPlan x \<in> set (new_calls M M') \<longleftrightarrow> res = x" for x
    using new stopped(6) by auto
  have skipped: "\<not> list_ex is_finalize_call (new_calls M M')"
    using new stopped(6) by (auto simp: list_ex_iff)
  have "r = eExpressionHitBreakpoint
          \<and> last (new_calls M M') = Call_TransferExpressionOwnership
          \<and> (\<exists>text. error_stream M' = text @ process_left_text)"
    if "res = eExpressionHitBreakpoint" "\<not> DoesIgnoreBreakpoints options"
    using that stopped(2,8) new report_interruption_text(2)[of res options co M2] by simp
  moreover have "r = eExpressionInterrupted
          \<and> last (new_calls M M') = Call_SetRunningUserExpression False
          \<and> (\<exists>text. error_stream M' = text @ process_returned_text)"
    if "res = eExpressionInterrupted" "DoesUnwindOnError options"
    using that stopped(2,8) new report_interruption_text(1)[of res options co M2] by simp
  moreover have "r = eExpressionHitBreakpoint
          \<and> last (new_calls M M') = Call_SetRunningUserExpression False
          \<and> (\<exists>text. error_stream M' = text @ process_returned_text)"
    if "res = eExpressionHitBreakpoint" "DoesIgnoreBreakpoints options"
    using that stopped(2,8) new report_interruption_text(1)[of res options co M2] by simp
  ultimately show ?thesis using skipped stopped(7) by (simp add: ran)
qed

theorem Execute_stopped_early_witness:
  "(\<exists>M'. Execute (co_stops eExpressionHitBreakpoint) stopped_thread default_options parsed_jit
            = Inr (eExpressionHitBreakpoint, M')
         \<and> Call_RunThreadPlan eExpressionHitBreakpoint \<in> set (new_calls parsed_jit M')
         \<and> \<not> DoesIgnoreBreakpoints default_options
         \<and> last (new_calls parsed_jit M') = Call_TransferExpressionOwnership
         \<and> m_dematerializer_sp (this M') = Some 5)
   \<and> (\<exists>M'. Execute (co_stops eExpressionInterrupted) stopped_thread unwind_on_error parsed_jit
            = Inr (eExpressionInterrupted, M')
         \<and> Call_RunThreadPlan eExpressionInterrupted \<in> set (new_calls parsed_jit M')
         \<and> DoesUnwindOnError unwind_on_error
         \<and> last (new_calls parsed_jit M') = Call_SetRunningUserExpression False)
   \<and> (\<exists>M'. Execute (co_stops eExpressionHitBreakpoint) stopped_thread ignore_breakpoints
              parsed_jit
            = Inr (eExpressionHitBreakpoint, M')
         \<and> Call_RunThreadPlan eExpressionHitBreakpoint \<in> set (new_calls parsed_jit M')
         \<and> DoesIgnoreBreakpoints ignore_breakpoints
         \<and> last (new_calls parsed_jit M') = Call_SetRunningUserExpression False)"
proof -
  obtain r1 M1
    where run1: "Execute (co_stops eExpressionHitBreakpoint) stopped_thread default_options
                   parsed_jit = Inr (r1, M1)"
    and hit1: "Call_RunThreadPlan eExpressionHitBreakpoint \<in> set (new_calls parsed_jit M1)"
    and handle: "m_dematerializer_sp (this M1) = Some 5"
    by (simp add: run_defs)
  have opt1: "\<not> DoesIgnoreBreakpoints default_options"
    by (simp add: default_options_def)
  from Execute_stopped_early[OF run1] hit1 opt1
  have "r1 = eExpressionHitBreakpoint
        \<and> last (new_calls parsed_jit M1) = Call_TransferExpressionOwnership"
    by blast
  with run1 hit1 opt1 handle have first: "\<exists>M'. Execute (co_stops eExpressionHitBreakpoint)
            stopped_thread default_options parsed_jit = Inr (eExpressionHitBreakpoint, M')
         \<and> Call_RunThreadPlan eExpressionHitBreakpoint \<in> set (new_calls parsed_jit M')
         \<and> \<not> DoesIgnoreBreakpoints default_options
         \<and> last (new_calls parsed_jit M') = Call_TransferExpressionOwnership
         \<and> m_dematerializer_sp (this M') = Some 5"
    by blast
  obtain r2 M2
    where run2: "Execute (co_stops eExpressionInterrupted) stopped_thread unwind_on_error
                   parsed_jit = Inr (r2, M2)"
    and hit2: "Call_RunThreadPlan eExpressionInterrupted \<in> set (new_calls parsed_jit M2)"
    by (simp add: run_defs unwind_on_error_def)
  have opt2: "DoesUnwindOnError unwind_on_error"
    by (simp add: unwind_on_error_def)
  from Execute_stopped_early[OF run2] hit2 opt2
  have "r2 = eExpressionInterrupted
        \<and> last (new_calls parsed_jit M2) = Call_SetRunningUserExpression False"
    by blast
  with run2 hit2 opt2 have second: "\<exists>M'. Execute (co_stops eExpressionInterrupted)
            stopped_thread unwind_on_error parsed_jit = Inr (eExpressionInterrupted, M')
         \<and> Call_RunThreadPlan eExpressionInterrupted \<in> set (new_calls parsed_jit M')
         \<and> DoesUnwindOnError unwind_on_error
         \<and> last (new_calls parsed_jit M') = Call_SetRunningUserExpression False"
    by blast
  obtain r3 M3
    where run3: "Execute (co_stops eExpressionHitBreakpoint) stopped_thread ignore_breakpoints
                   parsed_jit = Inr (r3, M3)"
    and hit3: "Call_RunThreadPlan eExpressionHitBreakpoint \<in> set (new_calls parsed_jit M3)"
    by (simp add: run_defs ignore_breakpoints_def)
  have opt3: "DoesIgnoreBreakpoints ignore_breakpoints"
    by (simp add: ignore_breakpoints_def)
  from Execute_stopped_early[OF run3] hit3 opt3
  have "r3 = eExpressionHitBreakpoint
        \<and> last (new_calls parsed_jit M3) = Call_SetRunningUserExpression False"
    by blast
  with run3 hit3 opt3 have third: "\<exists>M'. Execute (co_stops eExpressionHitBreakpoint)
            stopped_thread ignore_breakpoints parsed_jit = Inr (eExpressionHitBreakpoint, M')
         \<and> Call_RunThreadPlan eExpressionHitBreakpoint \<in> set (new_calls parsed_jit M')
         \<and> DoesIgnoreBreakpoints ignore_breakpoints
         \<and> last (new_calls parsed_jit M') = Call_SetRunningUserExpression False"
    by blast
  from first second third show ?thesis by (intro conjI)
qed

subsection \<open>The interpreter path\<close>

lemma interpretation_outcome:
  assumes "Execute co exe_ctx options M = Inr (r, M')"
    and "m_can_interpret (this M)"
    and "m_execution_unit_sp (this M) = Some unit"
  shows "(GetModule unit = None \<or> GetFunction unit = None \<longrightarrow>
            r = eExpressionSetupError \<and> \<not> list_ex is_Interpret (new_calls M M'))
       \<and> (list_ex interpret_failed (new_calls M M') \<longrightarrow>
            GetModule unit \<noteq> None \<and> GetFunction unit \<noteq> None
            \<and> r = eExpressionDiscarded)"
  using assms(1)
proof (cases rule: Execute_cases)
  case (setup_error cs)
  have "\<not> is_Interpret c \<and> \<not> interpret_failed c" if "c \<in> set cs" for c
  proof -
    from that setup_error(3) have "is_prepare_call c \<or> is_setup_call c" by blast
    then show ?thesis by auto
  qed
  with setup_error(1,2) show ?thesis by (simp add: list_ex_iff)
next
  case (discarded pc args lo hi e unit')
  with assms show ?thesis by auto
next
  case (interpreted pc args lo hi e fin unit')
  have "\<not> interpret_failed c" if "c \<in> set pc \<or> c \<in> set fin" for c
    using that interpreted(3,5) by auto
  with interpreted assms show ?thesis by (auto simp: list_ex_iff)
next
  case (stopped pc args res M2)
  with assms show ?thesis by simp
next
  case (completed pc args fin)
  with assms show ?thesis by simp
qed

text \<open>
  C3. On the interpretation path (\<^verbatim>\<open>m_can_interpret\<close> set, execution unit and
  materializer present), \<^verbatim>\<open>Execute\<close> returns, and: if the execution unit has no module
  or no function, it returns \<open>eExpressionSetupError\<close> and the interpreter is not called; if
  the interpreter was called and reported failure, then module and function both exist and
  it returns \<open>eExpressionDiscarded\<close>.
\<close>

theorem Execute_interpretation:
  assumes "m_can_interpret (this M)"
    and "m_execution_unit_sp (this M) = Some unit"
    and "m_materializer_ap (this M) \<noteq> None"
  shows "\<exists>r M'. Execute co exe_ctx options M = Inr (r, M')
       \<and> (GetModule unit = None \<or> GetFunction unit = None \<longrightarrow>
            r = eExpressionSetupError \<and> \<not> list_ex is_Interpret (new_calls M M'))
       \<and> (list_ex interpret_failed (new_calls M M') \<longrightarrow>
            GetModule unit \<noteq> None \<and> GetFunction unit \<noteq> None
            \<and> r = eExpressionDiscarded)"
proof -
  from assms Execute_returns[of M exe_ctx co options] obtain r M'
    where run: "Execute co exe_ctx options M = Inr (r, M')"
    by auto
  note outcome = interpretation_outcome[OF run assms(1,2)]
  show ?thesis
  proof (intro exI conjI)
    show "Execute co exe_ctx options M = Inr (r, M')" by (rule run)
    show "GetModule unit = None \<or> GetFunction unit = None \<longrightarrow>
            r = eExpressionSetupError \<and> \<not> list_ex is_Interpret (new_calls M M')"
      using outcome by blast
    show "list_ex interpret_failed (new_calls M M') \<longrightarrow>
            GetModule unit \<noteq> None \<and> GetFunction unit \<noteq> None
            \<and> r = eExpressionDiscarded"
      using outcome by blast
  qed
qed

theorem Execute_interpretation_witness:
  "(\<exists>M'. Execute co_ok stopped_thread default_options parsed_without_module
            = Inr (eExpressionSetupError, M')
         \<and> m_can_interpret (this parsed_without_module)
         \<and> m_execution_unit_sp (this parsed_without_module)
             = Some \<lparr>GetModule = None, GetFunction = Some 2\<rparr>
         \<and> \<not> list_ex is_Interpret (new_calls parsed_without_module M'))
   \<and> (\<exists>M'. Execute co_interpret_fails stopped_thread default_options parsed_interpretable
            = Inr (eExpressionDiscarded, M')
         \<and> m_can_interpret (this parsed_interpretable)
         \<and> list_ex interpret_failed (new_calls parsed_interpretable M'))"
proof -
  let ?unit = "\<lparr>GetModule = None, GetFunction = Some 2\<rparr>"
  have flag1: "m_can_interpret (this parsed_without_module)"
    and unit1: "m_execution_unit_sp (this parsed_without_module) = Some ?unit"
    and materializer1: "m_materializer_ap (this parsed_without_module) \<noteq> None"
    by (simp_all add: run_defs parsed_without_module_def)
  from Execute_interpretation[OF flag1 unit1 materializer1,
         of co_ok stopped_thread default_options]
  have "\<exists>M'. Execute co_ok stopped_thread default_options parsed_without_module
            = Inr (eExpressionSetupError, M')
         \<and> \<not> list_ex is_Interpret (new_calls parsed_without_module M')"
    by auto
  with flag1 unit1 have first:
    "\<exists>M'. Execute co_ok stopped_thread default_options parsed_without_module
            = Inr (eExpressionSetupError, M')
         \<and> m_can_interpret (this parsed_without_module)
         \<and> m_execution_unit_sp (this parsed_without_module) = Some ?unit
         \<and> \<not> list_ex is_Interpret (new_calls parsed_without_module M')"
    by blast
  have flag2: "m_can_interpret (this parsed_interpretable)"
    and unit2: "m_execution_unit_sp (this parsed_interpretable)
                  = Some \<lparr>GetModule = Some 1, GetFunction = Some 2\<rparr>"
    and materializer2: "m_materializer_ap (this parsed_interpretable) \<noteq> None"
    by (simp_all add: run_defs)
  obtain r0 M0
    where run0: "Execute co_interpret_fails stopped_thread default_options
                   parsed_interpretable = Inr (r0, M0)"
    and failed: "list_ex interpret_failed (new_calls parsed_interpretable M0)"
    by (simp add: run_defs co_interpret_fails_def)
  from Execute_interpretation[OF flag2 unit2 materializer2,
         of co_interpret_fails stopped_thread default_options] run0 failed
  have "r0 = eExpressionDiscarded" by auto
  with run0 flag2 failed have second:
    "\<exists>M'. Execute co_interpret_fails stopped_thread default_options parsed_interpretable
            = Inr (eExpressionDiscarded, M')
         \<and> m_can_interpret (this parsed_interpretable)
         \<and> list_ex interpret_failed (new_calls parsed_interpretable M')"
    by blast
  from first second show ?thesis by (intro conjI)
qed

subsection \<open>A stale execution context\<close>

text \<open>
  C4. When re-validation of the execution context fails (\<^verbatim>\<open>LockAndCheckContext\<close> answers
  false), the preparation fails and \<^verbatim>\<open>Execute\<close> returns \<open>eExpressionSetupError\<close>; the
  members of the expression object (the materialized address, the stack frame bounds, the
  dematerializer) and the result variable are unchanged, and no call other than the failed
  check was made: nothing was allocated or materialized.
\<close>

theorem Execute_context_changed:
  assumes "\<not> fst (LockAndCheckContext co (calls M))"
  shows "(\<exists>M1. PrepareToExecuteJITExpression co a M = Inr (False, a, M1) \<and> this M1 = this M
             \<and> new_calls M M1 = [Call_LockAndCheckContext False])
       \<and> (\<exists>M'. Execute co exe_ctx options M = Inr (eExpressionSetupError, M')
             \<and> this M' = this M \<and> result M' = result M
             \<and> (\<forall>c \<in> set (new_calls M M'). c = Call_LockAndCheckContext False))"
  using assms
  by (auto simp: Execute_def PrepareToExecuteJITExpression_def Let_def new_calls_def
           split: prod.splits)

theorem Execute_context_changed_witness:
  "\<not> fst (LockAndCheckContext co_stale (calls parsed_jit))
   \<and> (\<exists>M'. Execute co_stale stopped_thread default_options parsed_jit
            = Inr (eExpressionSetupError, M')
          \<and> this M' = this parsed_jit
          \<and> new_calls parsed_jit M' = [Call_LockAndCheckContext False])"
proof -
  have stale: "\<not> fst (LockAndCheckContext co_stale (calls parsed_jit))"
    by (simp add: co_stale_def co_ok_def)
  from Execute_context_changed[OF stale, of LLDB_INVALID_ADDRESS stopped_thread default_options]
  obtain M' where "Execute co_stale stopped_thread default_options parsed_jit
                     = Inr (eExpressionSetupError, M')" and "this M' = this parsed_jit"
    by blast
  moreover from this(1) have "new_calls parsed_jit M' = [Call_LockAndCheckContext False]"
    by (auto simp: run_defs)
  ultimately show ?thesis using stale by blast
qed

subsection \<open>The running flag around the run\<close>




subsection \<open>Dematerializer handles\<close>

text \<open>
  C6, as amended. A successful \<^verbatim>\<open>FinalizeJITExecution\<close> discards the handle, and every
  further attempt on that state fails with the message that no dematerializer is present,
  without calling \<^verbatim>\<open>Dematerialize\<close> again; so does an attempt on any state with no live
  handle. A finalization that fails leaves the handle as it was: after a failed
  \<^verbatim>\<open>Dematerialize\<close> the handle is still live.
\<close>

theorem FinalizeJITExecution_single_use:
  "(FinalizeJITExecution co lo hi M = (True, M1) \<longrightarrow>
      m_dematerializer_sp (this M1) = None
      \<and> (\<forall>co' lo' hi'. FinalizeJITExecution co' lo' hi' M1 =
            (False,
             Printf ''Couldn't apply expression side effects : no dematerializer is present''
               M1)))
   \<and> (m_dematerializer_sp (this M) = None \<longrightarrow>
      FinalizeJITExecution co lo hi M =
        (False,
         Printf ''Couldn't apply expression side effects : no dematerializer is present'' M))
   \<and> (FinalizeJITExecution co lo hi M = (False, M1) \<longrightarrow>
      m_dematerializer_sp (this M1) = m_dematerializer_sp (this M))"
  by (auto simp: FinalizeJITExecution_def Let_def split: option.splits if_splits)

theorem FinalizeJITExecution_single_use_witness:
  "(\<exists>M1. FinalizeJITExecution co_ok 0 0 prepared_before = (True, M1)
         \<and> m_dematerializer_sp (this M1) = None
         \<and> fst (FinalizeJITExecution co_ok 0 0 M1) = False
         \<and> new_calls M1 (snd (FinalizeJITExecution co_ok 0 0 M1)) = [])
   \<and> m_dematerializer_sp (this fresh) = None
   \<and> fst (FinalizeJITExecution co_ok 0 0 fresh) = False
   \<and> (\<exists>M1. FinalizeJITExecution co_dematerialize_fails_once 0 0 prepared_before = (False, M1)
         \<and> m_dematerializer_sp (this M1) = Some 5)"
proof -
  obtain M1 where first: "FinalizeJITExecution co_ok 0 0 prepared_before = (True, M1)"
    by (simp add: run_defs)
  have none: "m_dematerializer_sp (this fresh) = None"
    by (simp add: fresh_def constructed_def)
  from FinalizeJITExecution_single_use[of co_ok 0 0 prepared_before M1] first
  have "m_dematerializer_sp (this M1) = None"
    and "FinalizeJITExecution co_ok 0 0 M1 =
           (False,
            Printf ''Couldn't apply expression side effects : no dematerializer is present''
              M1)"
    by blast+
  moreover from FinalizeJITExecution_single_use[of co_ok 0 0 fresh] none
  have "fst (FinalizeJITExecution co_ok 0 0 fresh) = False" by simp
  ultimately have used: "\<exists>M1. FinalizeJITExecution co_ok 0 0 prepared_before = (True, M1)
         \<and> m_dematerializer_sp (this M1) = None
         \<and> fst (FinalizeJITExecution co_ok 0 0 M1) = False
         \<and> new_calls M1 (snd (FinalizeJITExecution co_ok 0 0 M1)) = []"
    and absent: "fst (FinalizeJITExecution co_ok 0 0 fresh) = False"
    using first by (simp_all add: new_calls_def)
  obtain M2
    where failed: "FinalizeJITExecution co_dematerialize_fails_once 0 0 prepared_before
                     = (False, M2)"
    by (simp add: run_defs co_dematerialize_fails_once_def)
  have before: "m_dematerializer_sp (this prepared_before) = Some 5"
    by (simp add: run_defs)
  from FinalizeJITExecution_single_use[of co_dematerialize_fails_once 0 0 prepared_before M2]
    failed before
  have "m_dematerializer_sp (this M2) = Some 5" by simp
  with failed have kept:
    "\<exists>M1. FinalizeJITExecution co_dematerialize_fails_once 0 0 prepared_before = (False, M1)
         \<and> m_dematerializer_sp (this M1) = Some 5"
    by blast
  from used none absent kept show ?thesis by (intro conjI)
qed

text \<open>
  The stronger statement, that a second attempt on the same handle always fails, does not
  hold:
  when \<^verbatim>\<open>Dematerialize\<close> fails, the method returns before it resets the handle, and a
  second attempt dematerializes the same handle again and can succeed.
\<close>

theorem FinalizeJITExecution_single_use_counterexample:
  "fst (FinalizeJITExecution co_dematerialize_fails_once 0 0 prepared_before) = False
   \<and> m_dematerializer_sp
        (this (snd (FinalizeJITExecution co_dematerialize_fails_once 0 0 prepared_before)))
       = Some 5
   \<and> fst (FinalizeJITExecution co_dematerialize_fails_once 0 0
             (snd (FinalizeJITExecution co_dematerialize_fails_once 0 0 prepared_before)))
       = True
   \<and> calls (snd (FinalizeJITExecution co_dematerialize_fails_once 0 0
             (snd (FinalizeJITExecution co_dematerialize_fails_once 0 0 prepared_before))))
       = [Call_Dematerialize 5 0 0 (Failed ''read failed''),
          Call_Dematerialize 5 0 0 NoError,
          Call_GetResultAfterDematerialization (Some 9),
          Call_TransferAddress]"
  by (simp add: run_defs co_dematerialize_fails_once_def)

subsection \<open>The struct allocation\<close>









subsection \<open>One allocation policy\<close>

lemma Prepare_policy:
  assumes "PrepareToExecuteJITExpression co a M = Inr (ok, a', M1)"
    and "Call_Malloc n al perms policy addr e \<in> set (new_calls M M1)"
  shows "policy = (if m_can_interpret (this M) then eAllocationPolicyHostOnly
                   else eAllocationPolicyMirror)"
  using assms
  by (auto simp: PrepareToExecuteJITExpression_def new_calls_def Let_def split: prepare_splits)

lemma Prepare_Malloc_count:
  assumes "PrepareToExecuteJITExpression co a M = Inr (ok, a', M1)"
  shows "length (filter is_Malloc (new_calls M M1)) \<le> (if m_can_interpret (this M) then 2 else 1)"
  using assms
  by (auto simp: PrepareToExecuteJITExpression_def new_calls_def Let_def split: prepare_splits)

lemma Prepare_struct_by_contract:
  assumes "Malloc co = Malloc_by_contract memory"
    and "PrepareToExecuteJITExpression co a M = Inr (ok, a', M1)"
    and "m_materialized_address (this M) = LLDB_INVALID_ADDRESS"
    and "fst (LockAndCheckContext co (calls M))"
    and "m_jit_start_addr (this M) \<noteq> LLDB_INVALID_ADDRESS \<or> m_can_interpret (this M)"
  shows "\<exists>materializer. m_materializer_ap (this M) = Some materializer
           \<and> (case allocate memory (calls M @ [Call_LockAndCheckContext True])
                     (ucast (GetStructByteSize materializer))
                     (ucast (GetStructAlignment materializer))
                     {ePermissionsReadable, ePermissionsWritable}
                     (if m_can_interpret (this M) then eAllocationPolicyHostOnly
                      else eAllocationPolicyMirror) of
                 Inl failure \<Rightarrow> \<not> ok \<and> length (new_calls M M1) = 2
               | Inr allocation \<Rightarrow>
                   m_materialized_address (this M1) = allocated_at allocation
                   \<and> in_engine allocation
                   \<and> (in_target allocation \<longleftrightarrow> \<not> m_can_interpret (this M)))"
  using assms
  by (auto simp: PrepareToExecuteJITExpression_def Malloc_by_contract_def allocate_def
                 new_calls_def Let_def
           split: prepare_splits)

text \<open>
  C8. In one preparation every allocation request carries the policy that the flag
  \<^verbatim>\<open>m_can_interpret\<close> selects: host-only when it is set, mirrored when it is not; the flag
  itself is not changed. On the in-process path there is at most one request, on the
  interpreter path at most two (the struct and the stack frame). With the allocator of the
  contract: when the struct has to be allocated and the memory cannot be had under the
  selected policy, the preparation fails after that one request, whatever the other policy
  could have given; when it can, the struct is where the selected policy puts it, in the
  engine's address space and, exactly on the in-process path, in the target.
\<close>

theorem Prepare_allocation_policy:
  assumes "Malloc co = Malloc_by_contract memory"
    and "PrepareToExecuteJITExpression co a M = Inr (ok, a', M1)"
  shows "(\<forall>n al perms policy addr e.
            Call_Malloc n al perms policy addr e \<in> set (new_calls M M1) \<longrightarrow>
            policy = (if m_can_interpret (this M) then eAllocationPolicyHostOnly
                      else eAllocationPolicyMirror))
       \<and> length (filter is_Malloc (new_calls M M1)) \<le> (if m_can_interpret (this M) then 2 else 1)
       \<and> m_can_interpret (this M1) = m_can_interpret (this M)
       \<and> (m_materialized_address (this M) = LLDB_INVALID_ADDRESS
            \<and> fst (LockAndCheckContext co (calls M))
            \<and> (m_jit_start_addr (this M) \<noteq> LLDB_INVALID_ADDRESS \<or> m_can_interpret (this M))
          \<longrightarrow>
          (\<exists>materializer. m_materializer_ap (this M) = Some materializer
           \<and> (case allocate memory (calls M @ [Call_LockAndCheckContext True])
                     (ucast (GetStructByteSize materializer))
                     (ucast (GetStructAlignment materializer))
                     {ePermissionsReadable, ePermissionsWritable}
                     (if m_can_interpret (this M) then eAllocationPolicyHostOnly
                      else eAllocationPolicyMirror) of
                 Inl failure \<Rightarrow> \<not> ok \<and> length (new_calls M M1) = 2
               | Inr allocation \<Rightarrow>
                   m_materialized_address (this M1) = allocated_at allocation
                   \<and> in_engine allocation
                   \<and> (in_target allocation \<longleftrightarrow> \<not> m_can_interpret (this M)))))"
  using Prepare_policy[OF assms(2)] Prepare_Malloc_count[OF assms(2)]
    Prepare_struct_by_contract[OF assms] Prepare_keeps(2)[OF assms(2)]
  by blast

theorem Prepare_allocation_policy_witness:
  "Malloc (co_contract target_refuses) = Malloc_by_contract target_refuses
   \<and> engine_space target_refuses [Call_LockAndCheckContext True] 16 8
        {ePermissionsReadable, ePermissionsWritable} = Inr 0x9000
   \<and> (\<exists>ok a' M1.
        PrepareToExecuteJITExpression (co_contract target_refuses) LLDB_INVALID_ADDRESS
          parsed_jit = Inr (ok, a', M1)
        \<and> \<not> ok \<and> length (new_calls parsed_jit M1) = 2)
   \<and> Malloc (co_contract roomy) = Malloc_by_contract roomy
   \<and> (\<exists>ok a' M1.
        PrepareToExecuteJITExpression (co_contract roomy) LLDB_INVALID_ADDRESS
          parsed_interpretable = Inr (ok, a', M1)
        \<and> ok \<and> m_materialized_address (this M1) = 0x9000
        \<and> (\<forall>n al perms policy addr e.
              Call_Malloc n al perms policy addr e \<in> set (new_calls parsed_interpretable M1)
              \<longrightarrow> policy = eAllocationPolicyHostOnly))"
proof -
  have refusing: "Malloc (co_contract target_refuses) = Malloc_by_contract target_refuses"
    and room: "engine_space target_refuses [Call_LockAndCheckContext True] 16 8
                 {ePermissionsReadable, ePermissionsWritable} = Inr 0x9000"
    and giving: "Malloc (co_contract roomy) = Malloc_by_contract roomy"
    by (simp_all add: co_contract_def co_ok_def target_refuses_def)
  obtain ok a' M1
    where jit: "PrepareToExecuteJITExpression (co_contract target_refuses) LLDB_INVALID_ADDRESS
                  parsed_jit = Inr (ok, a', M1)"
    using Prepare_returns[of parsed_jit "co_contract target_refuses" LLDB_INVALID_ADDRESS]
    by (auto simp: run_defs)
  have state: "m_materialized_address (this parsed_jit) = LLDB_INVALID_ADDRESS"
      "fst (LockAndCheckContext (co_contract target_refuses) (calls parsed_jit))"
      "m_jit_start_addr (this parsed_jit) \<noteq> LLDB_INVALID_ADDRESS"
      "\<not> m_can_interpret (this parsed_jit)"
      "m_materializer_ap (this parsed_jit)
         = Some \<lparr>GetStructByteSize = 16, GetStructAlignment = 8\<rparr>"
      "calls parsed_jit = []"
    by (simp_all add: run_defs co_contract_def)
  have refused: "allocate target_refuses [Call_LockAndCheckContext True] 16 8
                   {ePermissionsReadable, ePermissionsWritable} eAllocationPolicyMirror
                 = Inl TargetRefused"
    by (simp add: allocate_def target_refuses_def)
  from Prepare_allocation_policy[OF refusing jit] state refused
  have "\<not> ok \<and> length (new_calls parsed_jit M1) = 2" by simp
  with jit have first: "\<exists>ok a' M1.
        PrepareToExecuteJITExpression (co_contract target_refuses) LLDB_INVALID_ADDRESS
          parsed_jit = Inr (ok, a', M1)
        \<and> \<not> ok \<and> length (new_calls parsed_jit M1) = 2"
    by blast
  obtain a2 M2
    where interp: "PrepareToExecuteJITExpression (co_contract roomy) LLDB_INVALID_ADDRESS
                     parsed_interpretable = Inr (True, a2, M2)"
    by (simp add: run_defs co_contract_def roomy_def Malloc_by_contract_def allocate_def)
  have state2: "m_materialized_address (this parsed_interpretable) = LLDB_INVALID_ADDRESS"
      "fst (LockAndCheckContext (co_contract roomy) (calls parsed_interpretable))"
      "m_can_interpret (this parsed_interpretable)"
      "m_materializer_ap (this parsed_interpretable)
         = Some \<lparr>GetStructByteSize = 16, GetStructAlignment = 8\<rparr>"
      "calls parsed_interpretable = []"
    by (simp_all add: run_defs co_contract_def)
  have given: "allocate roomy [Call_LockAndCheckContext True] 16 8
                 {ePermissionsReadable, ePermissionsWritable} eAllocationPolicyHostOnly
               = Inr \<lparr>allocated_at = 0x9000, in_engine = True, in_target = False\<rparr>"
    by (simp add: allocate_def roomy_def)
  note policy = Prepare_allocation_policy[OF giving interp]
  from policy state2 given have "m_materialized_address (this M2) = 0x9000" by simp
  moreover from policy state2(3)
  have "\<forall>n al perms policy addr e.
              Call_Malloc n al perms policy addr e \<in> set (new_calls parsed_interpretable M2)
              \<longrightarrow> policy = eAllocationPolicyHostOnly"
    by simp
  ultimately have second: "\<exists>ok a' M1.
        PrepareToExecuteJITExpression (co_contract roomy) LLDB_INVALID_ADDRESS
          parsed_interpretable = Inr (ok, a', M1)
        \<and> ok \<and> m_materialized_address (this M1) = 0x9000
        \<and> (\<forall>n al perms policy addr e.
              Call_Malloc n al perms policy addr e \<in> set (new_calls parsed_interpretable M1)
              \<longrightarrow> policy = eAllocationPolicyHostOnly)"
    using interp by blast
  from refusing room first giving second show ?thesis by (intro conjI)
qed

subsection \<open>No selected thread\<close>

lemma no_thread_outcome:
  assumes "\<not> m_can_interpret (this M)"
    and "m_jit_start_addr (this M) \<noteq> LLDB_INVALID_ADDRESS"
    and "\<not> HasThreadScope exe_ctx"
    and "Execute co exe_ctx options M = Inr (r, M')"
  shows "r = eExpressionSetupError
       \<and> \<not> list_ex is_plan_call (new_calls M M')
       \<and> (\<forall>a M1. PrepareToExecuteJITExpression co LLDB_INVALID_ADDRESS M = Inr (True, a, M1)
            \<longrightarrow> M' = Printf ''UserExpression::Execute called with no thread selected.'' M1)"
proof -
  from assms(2,4) obtain ok a M1
    where prep: "PrepareToExecuteJITExpression co LLDB_INVALID_ADDRESS M = Inr (ok, a, M1)"
    by (cases "PrepareToExecuteJITExpression co LLDB_INVALID_ADDRESS M")
       (auto simp: Execute_def)
  from Prepare_calls[OF prep] obtain pc
    where pc: "calls M1 = calls M @ pc" "\<forall>c \<in> set pc. is_prepare_call c"
    by blast
  from assms prep Prepare_keeps(2)[OF prep]
  have "r = eExpressionSetupError" and "calls M' = calls M1"
    and "ok \<longrightarrow> M' = Printf ''UserExpression::Execute called with no thread selected.'' M1"
    by (auto simp: Execute_def call_path_def split: bool.splits)
  with pc prep show ?thesis by (auto simp: new_calls_def list_ex_iff)
qed

text \<open>
  C9. On the in-process path (execution unit and materializer present), an execution
  context without a thread makes \<^verbatim>\<open>Execute\<close> return \<open>eExpressionSetupError\<close> without
  building, validating or running a call plan. When the preparation had succeeded, the
  state returned is the prepared state with one message appended to the error stream, the
  one saying that no thread is selected: the object's members (the struct address, the
  dematerializer) are as the preparation left them.
\<close>

theorem Execute_no_thread:
  assumes "\<not> m_can_interpret (this M)"
    and "m_jit_start_addr (this M) \<noteq> LLDB_INVALID_ADDRESS"
    and "\<not> HasThreadScope exe_ctx"
    and "m_execution_unit_sp (this M) \<noteq> None"
    and "m_materializer_ap (this M) \<noteq> None"
  shows "\<exists>M'. Execute co exe_ctx options M = Inr (eExpressionSetupError, M')
       \<and> \<not> list_ex is_plan_call (new_calls M M')
       \<and> (\<forall>a M1. PrepareToExecuteJITExpression co LLDB_INVALID_ADDRESS M = Inr (True, a, M1)
            \<longrightarrow> M' = Printf ''UserExpression::Execute called with no thread selected.'' M1)"
proof -
  from assms(3-5) Execute_returns[of M exe_ctx co options] obtain r M'
    where run: "Execute co exe_ctx options M = Inr (r, M')"
    by auto
  note outcome = no_thread_outcome[OF assms(1-3) run]
  show ?thesis
  proof (intro exI conjI)
    show "Execute co exe_ctx options M = Inr (eExpressionSetupError, M')"
      using run outcome by simp
    show "\<not> list_ex is_plan_call (new_calls M M')"
      using outcome by blast
    show "\<forall>a M1. PrepareToExecuteJITExpression co LLDB_INVALID_ADDRESS M = Inr (True, a, M1)
            \<longrightarrow> M' = Printf ''UserExpression::Execute called with no thread selected.'' M1"
      using outcome by blast
  qed
qed

theorem Execute_no_thread_witness:
  "\<exists>M1 M'. PrepareToExecuteJITExpression co_ok LLDB_INVALID_ADDRESS parsed_jit
           = Inr (True, 0x101000, M1)
        \<and> m_materialized_address (this M1) = 0x101000
        \<and> m_dematerializer_sp (this M1) = Some 5
        \<and> Execute co_ok no_thread default_options parsed_jit = Inr (eExpressionSetupError, M')
        \<and> M' = Printf ''UserExpression::Execute called with no thread selected.'' M1"
proof -
  obtain M1
    where prep: "PrepareToExecuteJITExpression co_ok LLDB_INVALID_ADDRESS parsed_jit
                   = Inr (True, 0x101000, M1)"
    and kept: "m_materialized_address (this M1) = 0x101000"
              "m_dematerializer_sp (this M1) = Some 5"
    by (simp add: run_defs)
  have "\<not> m_can_interpret (this parsed_jit)"
    and "m_jit_start_addr (this parsed_jit) \<noteq> LLDB_INVALID_ADDRESS"
    and "\<not> HasThreadScope no_thread"
    and "m_execution_unit_sp (this parsed_jit) \<noteq> None"
    and "m_materializer_ap (this parsed_jit) \<noteq> None"
    by (simp_all add: run_defs no_thread_def)
  from Execute_no_thread[OF this, of co_ok default_options] prep
  obtain M' where "Execute co_ok no_thread default_options parsed_jit
                     = Inr (eExpressionSetupError, M')"
    and "M' = Printf ''UserExpression::Execute called with no thread selected.'' M1"
    by blast
  with prep kept show ?thesis by blast
qed

subsection \<open>Nothing to run\<close>

text \<open>
  C10. With no machine-code entry address and no permission to interpret,
  \<^verbatim>\<open>Execute\<close> returns \<open>eExpressionSetupError\<close> at once: it makes no call at all (no
  check, allocation, materialization or execution), and leaves the object and the result
  variable as they were; only the error stream receives a message.
\<close>

theorem Execute_without_entry_point:
  assumes "m_jit_start_addr (this M) = LLDB_INVALID_ADDRESS"
    and "\<not> m_can_interpret (this M)"
  shows "\<exists>M'. Execute co exe_ctx options M = Inr (eExpressionSetupError, M')
           \<and> this M' = this M \<and> calls M' = calls M \<and> result M' = result M
           \<and> error_stream M' = error_stream M
                @ ''Expression can't be run, because there is no JIT compiled function''"
  using assms by (simp add: Execute_def)

theorem Execute_without_entry_point_witness:
  "m_jit_start_addr (this fresh) = LLDB_INVALID_ADDRESS \<and> \<not> m_can_interpret (this fresh)
   \<and> (\<exists>M'. Execute co_ok stopped_thread default_options fresh = Inr (eExpressionSetupError, M')
          \<and> this M' = this fresh \<and> calls M' = [])"
proof -
  have entry: "m_jit_start_addr (this fresh) = LLDB_INVALID_ADDRESS"
    and flag: "\<not> m_can_interpret (this fresh)"
    by (simp_all add: fresh_def constructed_def)
  from Execute_without_entry_point[OF entry flag, of co_ok stopped_thread default_options]
  obtain M' where "Execute co_ok stopped_thread default_options fresh
                     = Inr (eExpressionSetupError, M')"
    and "this M' = this fresh" and "calls M' = calls fresh"
    by blast
  then show ?thesis using entry flag by (auto simp: fresh_def)
qed

end
